theory Spec2Isabelle
  imports Complex_Main "HOL-Library.Sublist" "HOL-Library.Signed_Division"
begin

section \<open>Sardines.py: constants\<close>

text \<open>
  The game is a single Python file built on pygame. Python floats are modelled as
  \<^typ>\<open>real\<close> (so rounding of IEEE doubles is outside the model), Python ints as
  \<^typ>\<open>int\<close>.
\<close>

definition SCREEN_WIDTH :: real where "SCREEN_WIDTH = 800"
definition SCREEN_HEIGHT :: real where "SCREEN_HEIGHT = 600"

datatype game_state = MENU | PLAYING | GAMEOVER | NAME_INPUT

section \<open>pygame primitives used by the game\<close>

text \<open>\<open>pygame.math.Vector2\<close>: a mutable pair of floats.\<close>

record Vector2 =
  vx :: real
  vy :: real

definition vec :: "real \<Rightarrow> real \<Rightarrow> Vector2" where
  "vec a b = \<lparr>vx = a, vy = b\<rparr>"

definition v_add :: "Vector2 \<Rightarrow> Vector2 \<Rightarrow> Vector2" where
  "v_add a b = \<lparr>vx = vx a + vx b, vy = vy a + vy b\<rparr>"

definition v_sub :: "Vector2 \<Rightarrow> Vector2 \<Rightarrow> Vector2" where
  "v_sub a b = \<lparr>vx = vx a - vx b, vy = vy a - vy b\<rparr>"

definition v_scale :: "Vector2 \<Rightarrow> real \<Rightarrow> Vector2" where
  "v_scale a k = \<lparr>vx = vx a * k, vy = vy a * k\<rparr>"

text \<open>\<open>Vector2.length()\<close> is the Euclidean length.\<close>

definition v_length :: "Vector2 \<Rightarrow> real" where
  "v_length a = sqrt (vx a * vx a + vy a * vy a)"

text \<open>
  \<open>Vector2.normalize_ip()\<close> divides both components by the length. pygame raises
  ValueError on a zero vector; every call in the game is guarded by \<open>length() > 0\<close>.
\<close>

definition normalize_ip :: "Vector2 \<Rightarrow> Vector2" where
  "normalize_ip a = \<lparr>vx = vx a / v_length a, vy = vy a / v_length a\<rparr>"

text \<open>Python's \<open>int(f)\<close> on a float truncates toward zero.\<close>

definition py_int :: "real \<Rightarrow> int" where
  "py_int r = (if 0 \<le> r then \<lfloor>r\<rfloor> else \<lceil>r\<rceil>)"

text \<open>\<open>pygame.Rect\<close>: four ints, left, top, width, height.\<close>

record Rect =
  rx :: int
  ry :: int
  rw :: int
  rh :: int

text \<open>
  \<open>Rect.colliderect\<close> as pygame 2 implements it (the game needs pygame 2: it passes
  \<open>border_radius\<close> to \<open>pygame.draw.rect\<close>): a rect of zero width or height collides
  with nothing; otherwise each rect's extent on an axis runs from
  \<open>min(x, x + w)\<close> to \<open>max(x, x + w)\<close>, so a negative width or height is read as the
  mirrored box, and two rects collide iff the extents overlap strictly on both axes.
\<close>

definition colliderect :: "Rect \<Rightarrow> Rect \<Rightarrow> bool" where
  "colliderect A B =
     (if rw A = 0 \<or> rh A = 0 \<or> rw B = 0 \<or> rh B = 0 then False
      else min (rx A) (rx A + rw A) < max (rx B) (rx B + rw B)
         \<and> min (ry A) (ry A + rh A) < max (ry B) (ry B + rh B)
         \<and> max (rx A) (rx A + rw A) > min (rx B) (rx B + rw B)
         \<and> max (ry A) (ry A + rh A) > min (ry B) (ry B + rh B))"

text \<open>\<open>Rect.center\<close>: \<open>(x + w / 2, y + h / 2)\<close> in C integer arithmetic.\<close>

definition center :: "Rect \<Rightarrow> int \<times> int" where
  "center r = (rx r + rw r sdiv 2, ry r + rh r sdiv 2)"

section \<open>GameObject\<close>

record GameObject =
  position :: Vector2
  obj_size :: Vector2

definition get_rect :: "'a GameObject_scheme \<Rightarrow> real \<Rightarrow> Rect" where
  "get_rect self shrink =
     \<lparr>rx = py_int (vx (position self) + shrink),
      ry = py_int (vy (position self) + shrink),
      rw = py_int (vx (obj_size self) - 2 * shrink),
      rh = py_int (vy (obj_size self) - 2 * shrink)\<rparr>"

text \<open>
  \<open>collides_with\<close> fixes \<open>buffer = 18\<close>; \<open>overlaps\<close> is the same test with the
  shrink left open, as \<open>get_rect\<close> has it.
\<close>

definition overlaps :: "'a GameObject_scheme \<Rightarrow> 'b GameObject_scheme \<Rightarrow> real \<Rightarrow> bool" where
  "overlaps a b shrink = colliderect (get_rect a shrink) (get_rect b shrink)"

definition collides_with :: "'a GameObject_scheme \<Rightarrow> 'b GameObject_scheme \<Rightarrow> bool" where
  "collides_with self other = (let buffer = 18 in overlaps self other buffer)"

section \<open>Fish (the player)\<close>

record Fish = GameObject +
  speed :: real
  invincible :: bool
  invincible_timer :: real
  direction :: int
  velocity :: Vector2

definition Fish_init :: "real \<Rightarrow> real \<Rightarrow> Fish" where
  "Fish_init x0 y0 =
     \<lparr>position = vec x0 y0, obj_size = vec 100 70,
      speed = 345, invincible = False, invincible_timer = 0,
      direction = 1, velocity = vec 0 0\<rparr>"

text \<open>The eight keys \<open>Fish.update\<close> reads from \<open>pygame.key.get_pressed()\<close>.\<close>

record keys =
  K_LEFT :: bool
  K_a :: bool
  K_RIGHT :: bool
  K_d :: bool
  K_UP :: bool
  K_w :: bool
  K_DOWN :: bool
  K_s :: bool

text \<open>
  Lines 75 to 85 of \<open>Fish.update\<close>: the velocity starts at zero and four independent
  \<open>if\<close> statements assign its components in the order left, right, up, down.
\<close>

definition key_velocity :: "keys \<Rightarrow> Vector2" where
  "key_velocity k =
     (let v = vec 0 0;
          v = (if K_LEFT k \<or> K_a k then v\<lparr>vx := -1\<rparr> else v);
          v = (if K_RIGHT k \<or> K_d k then v\<lparr>vx := 1\<rparr> else v);
          v = (if K_UP k \<or> K_w k then v\<lparr>vy := -1\<rparr> else v);
          v = (if K_DOWN k \<or> K_s k then v\<lparr>vy := 1\<rparr> else v)
      in v)"

definition key_direction :: "keys \<Rightarrow> int \<Rightarrow> int" where
  "key_direction k d =
     (let d = (if K_LEFT k \<or> K_a k then -1 else d);
          d = (if K_RIGHT k \<or> K_d k then 1 else d)
      in d)"

definition Fish_update :: "real \<Rightarrow> keys \<Rightarrow> Fish \<Rightarrow> Fish" where
  "Fish_update dt k self =
     (let v = key_velocity k;
          d = key_direction k (direction self);
          v = (if v_length v > 0 then normalize_ip v else v);
          p = v_add (position self) (v_scale (v_scale v (speed self)) dt);
          p = p\<lparr>vx := max 0 (min (SCREEN_WIDTH - vx (obj_size self)) (vx p))\<rparr>;
          p = p\<lparr>vy := max 0 (min (SCREEN_HEIGHT - vy (obj_size self)) (vy p))\<rparr>;
          self = self\<lparr>velocity := v, direction := d, position := p\<rparr>
      in if invincible self
         then (let self = self\<lparr>invincible_timer := invincible_timer self - dt\<rparr>
               in if invincible_timer self \<le> 0 then self\<lparr>invincible := False\<rparr> else self)
         else self)"

section \<open>Shark (the pursuer) and Powerup\<close>

record Shark = GameObject +
  shark_speed :: real

definition Shark_init :: "real \<Rightarrow> real \<Rightarrow> real \<Rightarrow> Shark" where
  "Shark_init x0 y0 sp = \<lparr>position = vec x0 y0, obj_size = vec 140 90, shark_speed = sp\<rparr>"

text \<open>
  \<open>Shark.update\<close>. The two \<open>random.uniform(-0.3, 0.3)\<close> draws are the argument
  \<open>random_offset\<close>; they are only made (and used) when the shark is not already at
  the target.
\<close>

definition Shark_update :: "real \<Rightarrow> Vector2 \<Rightarrow> Vector2 \<Rightarrow> Shark \<Rightarrow> Shark" where
  "Shark_update dt target_position random_offset self =
     (let dir = v_sub target_position (position self)
      in if v_length dir > 0
         then (let dir = normalize_ip dir;
                   dir = v_add dir random_offset;
                   dir = (if v_length dir > 0 then normalize_ip dir else dir)
               in self\<lparr>position :=
                    v_add (position self) (v_scale (v_scale dir (shark_speed self)) dt)\<rparr>)
         else self)"

text \<open>The four power-up type strings of \<open>spawn_powerup\<close>.\<close>

datatype kind = Invincible | Slow | Score | Mystery

record Powerup = GameObject +
  ptype :: kind
  active :: bool

definition Powerup_init :: "real \<Rightarrow> real \<Rightarrow> kind \<Rightarrow> Powerup" where
  "Powerup_init x0 y0 t = \<lparr>position = vec x0 y0, obj_size = vec 30 30, ptype = t, active = True\<rparr>"

section \<open>The high-score file\<close>

text \<open>
  A high-score entry is the dict \<open>{"name": ..., "score": ...}\<close>. What
  \<open>high_scores.json\<close> holds is seen through \<open>os.path.exists\<close> and \<open>json.load\<close>:
  the file is absent, or \<open>json.load\<close> raises on its text, or \<open>json.load\<close> returns
  a JSON value.
\<close>

record score_entry =
  entry_name :: string
  entry_score :: int

datatype json = JNull | JBool bool | JInt int | JStr string
  | JList "json list" | JDict "(string \<times> json) list"

datatype score_file = Absent | Garbled | Holds json

datatype error = JSONDecodeError

definition load_high_scores :: "score_file \<Rightarrow> error + json" where
  "load_high_scores f =
     (case f of
        Absent \<Rightarrow> Inr (JList [])
      | Garbled \<Rightarrow> Inl JSONDecodeError
      | Holds v \<Rightarrow> Inr v)"

definition entry_json :: "score_entry \<Rightarrow> json" where
  "entry_json e = JDict [(''name'', JStr (entry_name e)), (''score'', JInt (entry_score e))]"

section \<open>SharkChaseGame: the session\<close>

text \<open>
  The fields of \<open>SharkChaseGame\<close> that the simulation reads or writes. Fonts, the
  screen, the clock object, the menu buttons and the decorative bubbles are left out:
  \<open>update\<close> only moves the bubbles, after everything else. \<open>high_scores\<close> is held
  in the shape \<open>update_high_scores\<close> itself produces, a list of entries.
\<close>

record session =
  state :: game_state
  username :: string
  username_input :: string
  difficulty :: int
  spawn_rate :: int
  last_spawn_time :: int
  game_time :: real
  score :: real
  powerup_spawn_rate :: int
  last_powerup_spawn_time :: int
  player :: Fish
  sharks :: "Shark list"
  powerups :: "Powerup list"
  high_scores :: "score_entry list"
  high_score_file :: score_file

text \<open>
  \<open>__init__\<close>: \<open>now\<close> is the reading of \<open>pygame.time.get_ticks()\<close>, \<open>f\<close> the
  high-score file and \<open>hs\<close> the list \<open>load_high_scores\<close> returned for it.
\<close>

definition SharkChaseGame_init :: "int \<Rightarrow> score_entry list \<Rightarrow> score_file \<Rightarrow> session" where
  "SharkChaseGame_init now hs f =
     \<lparr>state = MENU, username = ''Player'', username_input = [], difficulty = 1,
      spawn_rate = 2000, last_spawn_time = now, game_time = 0, score = 0,
      powerup_spawn_rate = 10000, last_powerup_spawn_time = now,
      player = Fish_init (SCREEN_WIDTH / 2) (SCREEN_HEIGHT / 2),
      sharks = [], powerups = [], high_scores = hs, high_score_file = f\<rparr>"

definition save_high_scores :: "session \<Rightarrow> session" where
  "save_high_scores self =
     self\<lparr>high_score_file := Holds (JList (map entry_json (high_scores self)))\<rparr>"

text \<open>
  \<open>list.sort(key=..., reverse=True)\<close> is a stable sort into descending key order:
  entries of equal score keep their order. \<open>sort_key\<close> on the negated score is that
  sort.
\<close>

definition update_high_scores :: "session \<Rightarrow> session" where
  "update_high_scores self =
     (let new_score = \<lparr>entry_name = username self, entry_score = py_int (score self)\<rparr>;
          hs = high_scores self @ [new_score];
          hs = sort_key (\<lambda>e. - entry_score e) hs;
          hs = take 5 hs
      in save_high_scores (self\<lparr>high_scores := hs\<rparr>))"

definition set_difficulty :: "int \<Rightarrow> session \<Rightarrow> session" where
  "set_difficulty level self = self\<lparr>difficulty := level\<rparr>"

definition enter_name_mode :: "session \<Rightarrow> session" where
  "enter_name_mode self = self\<lparr>username_input := [], state := NAME_INPUT\<rparr>"

text \<open>\<open>now\<close> is what \<open>pygame.time.get_ticks()\<close> returns.\<close>

definition start_game :: "int \<Rightarrow> session \<Rightarrow> session" where
  "start_game now self =
     self\<lparr>state := PLAYING, score := 0, game_time := 0,
          player := (player self)\<lparr>position := vec (SCREEN_WIDTH / 2) (SCREEN_HEIGHT / 2)\<rparr>,
          sharks := [], powerups := [],
          last_spawn_time := now, last_powerup_spawn_time := now\<rparr>"

definition restart_game :: "int \<Rightarrow> session \<Rightarrow> session" where
  "restart_game now self = start_game now self"

section \<open>One frame of play: \<open>SharkChaseGame.update\<close>\<close>

text \<open>
  What a frame takes from outside the session: the keys held, the successive
  readings of \<open>pygame.time.get_ticks()\<close> (\<open>ticks env n\<close> is the reading of call
  number \<open>n\<close> within the frame), and the results of the \<open>random\<close> calls:
  the offset drawn for the shark at index \<open>i\<close>, the effect \<open>random.choice\<close> picks
  for a mystery power-up at index \<open>i\<close>, and the draws of the two spawners.
\<close>

record frame_env =
  pressed :: keys
  ticks :: "nat \<Rightarrow> int"
  jitter :: "nat \<Rightarrow> Vector2"
  mystery_effect :: "nat \<Rightarrow> kind"
  spawn_side :: int
  spawn_along :: real
  powerup_x :: real
  powerup_y :: real
  powerup_kind :: kind

definition spawn_shark :: "frame_env \<Rightarrow> session \<Rightarrow> session" where
  "spawn_shark env self =
     (let side = spawn_side env;
          xy = (if side = 0 then (-100, spawn_along env)
                else if side = 1 then (SCREEN_WIDTH + 100, spawn_along env)
                else if side = 2 then (spawn_along env, -100)
                else (spawn_along env, SCREEN_HEIGHT + 100));
          sp = 150 + real_of_int (difficulty self) * 40
      in self\<lparr>sharks := sharks self @ [Shark_init (fst xy) (snd xy) sp]\<rparr>)"

definition spawn_powerup :: "frame_env \<Rightarrow> session \<Rightarrow> session" where
  "spawn_powerup env self =
     self\<lparr>powerups := powerups self
            @ [Powerup_init (powerup_x env) (powerup_y env) (powerup_kind env)]\<rparr>"

text \<open>Lines 290 to 293: time, score and the player advance.\<close>

definition advance_player :: "real \<Rightarrow> frame_env \<Rightarrow> session \<Rightarrow> session" where
  "advance_player dt env self =
     (let self = self\<lparr>game_time := game_time self + dt\<rparr>;
          self = self\<lparr>score := score self + dt * 20\<rparr>
      in self\<lparr>player := Fish_update dt (pressed env) (player self)\<rparr>)"

text \<open>
  Lines 295 to 299: the loop over the sharks. Each shark is moved, then tested against
  the player (\<open>shark_hit\<close> is the \<open>if\<close> of lines 297 to 299, which submits the score
  and sets the state), and the loop goes on to the next shark.
\<close>

definition shark_hit :: "Shark \<Rightarrow> session \<Rightarrow> session" where
  "shark_hit shark self =
     (if collides_with shark (player self) \<and> \<not> invincible (player self)
      then (update_high_scores self)\<lparr>state := GAMEOVER\<rparr>
      else self)"

fun shark_loop ::
  "real \<Rightarrow> frame_env \<Rightarrow> Vector2 \<Rightarrow> nat \<Rightarrow> Shark list \<Rightarrow> session \<Rightarrow> Shark list \<times> session" where
  "shark_loop dt env c i [] self = ([], self)"
| "shark_loop dt env c i (shark # rest) self =
     (let shark = Shark_update dt c (jitter env i) shark;
          r = shark_loop dt env c (Suc i) rest (shark_hit shark self)
      in (shark # fst r, snd r))"

definition shark_pass :: "real \<Rightarrow> frame_env \<Rightarrow> session \<Rightarrow> session" where
  "shark_pass dt env self =
     (let player_center = center (get_rect (player self) 0);
          c = vec (real_of_int (fst player_center)) (real_of_int (snd player_center));
          r = shark_loop dt env c 0 (sharks self) self
      in (snd r)\<lparr>sharks := fst r\<rparr>)"

text \<open>Lines 300 to 321: the loop over the power-ups and the removal of the used ones.\<close>

definition make_invincible :: "session \<Rightarrow> session" where
  "make_invincible self =
     self\<lparr>player := (player self)\<lparr>invincible := True, invincible_timer := 3\<rparr>\<rparr>"

definition slow_sharks :: "session \<Rightarrow> session" where
  "slow_sharks self =
     self\<lparr>sharks := map (\<lambda>shark. shark\<lparr>shark_speed := shark_speed shark * 0.5\<rparr>) (sharks self)\<rparr>"

definition add_bonus :: "session \<Rightarrow> session" where
  "add_bonus self = self\<lparr>score := score self + 200\<rparr>"

definition pickup :: "frame_env \<Rightarrow> nat \<Rightarrow> kind \<Rightarrow> session \<Rightarrow> session" where
  "pickup env i t self =
     (if t = Invincible then make_invincible self
      else if t = Slow then slow_sharks self
      else if t = Score then add_bonus self
      else if t = Mystery then
        (let effect = mystery_effect env i
         in if effect = Invincible then make_invincible self
            else if effect = Slow then slow_sharks self
            else if effect = Score then add_bonus self
            else self)
      else self)"

fun powerup_loop ::
  "frame_env \<Rightarrow> nat \<Rightarrow> Powerup list \<Rightarrow> session \<Rightarrow> Powerup list \<times> session" where
  "powerup_loop env i [] self = ([], self)"
| "powerup_loop env i (powerup # rest) self =
     (if collides_with powerup (player self)
      then (let r = powerup_loop env (Suc i) rest (pickup env i (ptype powerup) self)
            in (powerup\<lparr>active := False\<rparr> # fst r, snd r))
      else (let r = powerup_loop env (Suc i) rest self
            in (powerup # fst r, snd r)))"

definition powerup_pass :: "frame_env \<Rightarrow> session \<Rightarrow> session" where
  "powerup_pass env self =
     (let r = powerup_loop env 0 (powerups self) self
      in (snd r)\<lparr>powerups := filter active (fst r)\<rparr>)"

text \<open>Lines 322 to 327: the two spawn timers.\<close>

definition spawn_pass :: "frame_env \<Rightarrow> session \<Rightarrow> session" where
  "spawn_pass env self =
     (let due = ticks env 0 - last_spawn_time self > spawn_rate self;
          self = (if due then (spawn_shark env self)\<lparr>last_spawn_time := ticks env 1\<rparr> else self);
          n = (if due then 2 else 1)
      in if ticks env n - last_powerup_spawn_time self > powerup_spawn_rate self
         then (spawn_powerup env self)\<lparr>last_powerup_spawn_time := ticks env (Suc n)\<rparr>
         else self)"

definition update :: "real \<Rightarrow> frame_env \<Rightarrow> session \<Rightarrow> session" where
  "update dt env self =
     (if state self = PLAYING
      then spawn_pass env (powerup_pass env (shark_pass dt env (advance_player dt env self)))
      else self)"

section \<open>Events: \<open>SharkChaseGame.handle_events\<close>\<close>

text \<open>
  Python strings are held as \<^typ>\<open>string\<close>, one \<^typ>\<open>char\<close> per code point, which
  covers the code points below 256. \<open>str.isspace\<close> and \<open>str.isprintable\<close> on that
  range:
\<close>

definition isspace :: "char \<Rightarrow> bool" where
  "isspace c = ((of_char c :: nat) \<in> {9, 10, 11, 12, 13, 28, 29, 30, 31, 32, 133, 160})"

definition strip :: "string \<Rightarrow> string" where
  "strip s = rev (dropWhile isspace (rev (dropWhile isspace s)))"

definition isprintable :: "string \<Rightarrow> bool" where
  "isprintable s =
     list_all (\<lambda>c. let n = (of_char c :: nat) in (32 \<le> n \<and> n \<le> 126) \<or> (161 \<le> n \<and> n \<noteq> 173)) s"

datatype key = K_RETURN | K_BACKSPACE | K_r | K_m | K_OTHER

text \<open>
  The keyboard side of the event loop: \<open>QUIT\<close> and \<open>KEYDOWN\<close> with the key and its
  \<open>unicode\<close> text. The mouse events, which only act on the menu buttons, are not
  part of this model. \<open>None\<close> is \<open>sys.exit()\<close>.
\<close>

datatype event = QUIT | KEYDOWN key string

definition handle_event :: "int \<Rightarrow> event \<Rightarrow> session \<Rightarrow> session option" where
  "handle_event now ev self =
     (case ev of
        QUIT \<Rightarrow> None
      | KEYDOWN k u \<Rightarrow>
          (let self =
                 (if state self = GAMEOVER
                  then (let self = (if k = K_r then restart_game now self else self)
                        in if k = K_m then self\<lparr>state := MENU\<rparr> else self)
                  else self);
               self =
                 (if state self = NAME_INPUT
                  then (if k = K_RETURN
                        then self\<lparr>username :=
                                    (if strip (username_input self) \<noteq> []
                                     then strip (username_input self) else ''Player''),
                                  state := MENU\<rparr>
                        else if k = K_BACKSPACE
                        then self\<lparr>username_input := butlast (username_input self)\<rparr>
                        else if isprintable u
                        then self\<lparr>username_input := username_input self @ u\<rparr>
                        else self)
                  else self)
           in Some self))"

fun handle_events :: "int \<Rightarrow> event list \<Rightarrow> session \<Rightarrow> session option" where
  "handle_events now [] self = Some self"
| "handle_events now (ev # evs) self =
     (case handle_event now ev self of
        None \<Rightarrow> None
      | Some self \<Rightarrow> handle_events now evs self)"

section \<open>Concrete inputs\<close>

text \<open>Key snapshots.\<close>

definition no_keys :: keys where
  "no_keys = \<lparr>K_LEFT = False, K_a = False, K_RIGHT = False, K_d = False,
              K_UP = False, K_w = False, K_DOWN = False, K_s = False\<rparr>"

definition all_held :: keys where
  "all_held = \<lparr>K_LEFT = True, K_a = True, K_RIGHT = True, K_d = True,
               K_UP = True, K_w = True, K_DOWN = True, K_s = True\<rparr>"

definition left_right_held :: keys where
  "left_right_held = \<lparr>K_LEFT = True, K_a = False, K_RIGHT = True, K_d = False,
                      K_UP = False, K_w = False, K_DOWN = False, K_s = False\<rparr>"

definition right_held :: keys where
  "right_held = \<lparr>K_LEFT = False, K_a = False, K_RIGHT = True, K_d = False,
                 K_UP = False, K_w = False, K_DOWN = False, K_s = False\<rparr>"

text \<open>
  The position line 88 of \<open>Fish.update\<close> computes for a fish whose keys give a
  non-zero velocity, before lines 89 and 90 clamp it.
\<close>

definition free_step :: "real \<Rightarrow> keys \<Rightarrow> Fish \<Rightarrow> Vector2" where
  "free_step dt k p =
     v_add (position p) (v_scale (v_scale (normalize_ip (key_velocity k)) (speed p)) dt)"

text \<open>
  A frame environment with no key held, the clock reading \<open>t\<close> at every call, and
  the offset \<open>(0.28, -0.04)\<close> drawn for every shark.
\<close>

definition calm_env :: "int \<Rightarrow> frame_env" where
  "calm_env t =
     \<lparr>pressed = no_keys, ticks = (\<lambda>n. t), jitter = (\<lambda>i. vec (7/25) (-1/25)),
      mystery_effect = (\<lambda>i. Score), spawn_side = 0, spawn_along = 100,
      powerup_x = 200, powerup_y = 200, powerup_kind = Slow\<rparr>"

text \<open>
  Sessions in play, started at clock reading 0 with the player at the centre
  \<open>(400, 300)\<close>: one with two sharks just above the player's centre, one with a
  score power-up next to the centre, one with a far power-up before that one in the
  list, one with a shark and the score power-up.
\<close>

definition two_shark_session :: session where
  "two_shark_session =
     (start_game 0 (SharkChaseGame_init 0 [] Absent))
       \<lparr>score := 100, sharks := [Shark_init 450 300 190, Shark_init 450 310 190]\<rparr>"

definition bonus_session :: session where
  "bonus_session =
     (start_game 0 (SharkChaseGame_init 0 [] Absent))
       \<lparr>powerups := [Powerup_init 440 330 Score]\<rparr>"

definition two_powerup_session :: session where
  "two_powerup_session =
     (start_game 0 (SharkChaseGame_init 0 [] Absent))
       \<lparr>powerups := [Powerup_init 100 100 Slow, Powerup_init 440 330 Score]\<rparr>"

definition lethal_session :: session where
  "lethal_session =
     (start_game 0 (SharkChaseGame_init 0 [] Absent))
       \<lparr>score := 100, sharks := [Shark_init 450 300 190],
        powerups := [Powerup_init 440 330 Score]\<rparr>"

text \<open>The session at the menu after the name \<open>Bob\<close> has been typed and confirmed.\<close>

definition bob_session :: session where
  "bob_session =
     (SharkChaseGame_init 0 [] Absent)\<lparr>username := ''Bob'', username_input := ''Bob''\<rparr>"

section \<open>The ranked list\<close>

lemma sorted_desc_sort_key:
  "sorted_wrt (\<lambda>a b. entry_score a \<ge> entry_score b) (sort_key (\<lambda>e. - entry_score e) xs)"
proof -
  have "sorted (map (\<lambda>e. - entry_score e) (sort_key (\<lambda>e. - entry_score e) xs))"
    by (rule sorted_sort_key)
  then show ?thesis
    by (simp add: sorted_map)
qed

lemma filter_take_prefix: "prefix (filter P (take n xs)) (filter P xs)"
  by (rule filter_mono_prefix) (rule take_is_prefix)

lemma filter_sort_desc:
  "filter (\<lambda>e. entry_score e = k) (sort_key (\<lambda>e. - entry_score e) xs)
     = filter (\<lambda>e. entry_score e = k) xs"
  using sort_key_stable [of "\<lambda>e. - entry_score e" "- k" xs] by simp

lemma high_scores_update_high_scores:
  "high_scores (update_high_scores s)
     = take 5 (sort_key (\<lambda>e. - entry_score e)
         (high_scores s @ [\<lparr>entry_name = username s, entry_score = py_int (score s)\<rparr>]))"
  by (simp add: update_high_scores_def save_high_scores_def Let_def)

text \<open>
  C8. After \<open>update_high_scores\<close> the list has at most 5 entries and is in descending
  order of score; for every score \<open>k\<close> the entries of score \<open>k\<close> that remain are the
  first ones, in their order, of the old list followed by the new entry: ties keep
  insertion order.
\<close>

theorem update_high_scores_ranked:
  "length (high_scores (update_high_scores s)) \<le> 5
   \<and> sorted_wrt (\<lambda>a b. entry_score a \<ge> entry_score b) (high_scores (update_high_scores s))
   \<and> (\<forall>k. prefix (filter (\<lambda>e. entry_score e = k) (high_scores (update_high_scores s)))
             (filter (\<lambda>e. entry_score e = k)
                (high_scores s @ [\<lparr>entry_name = username s, entry_score = py_int (score s)\<rparr>])))"
proof -
  let ?new = "\<lparr>entry_name = username s, entry_score = py_int (score s)\<rparr>"
  let ?sorted = "sort_key (\<lambda>e. - entry_score e) (high_scores s @ [?new])"
  have hs: "high_scores (update_high_scores s) = take 5 ?sorted"
    by (rule high_scores_update_high_scores)
  have "length (take 5 ?sorted) \<le> 5" by simp
  moreover have "sorted_wrt (\<lambda>a b. entry_score a \<ge> entry_score b) (take 5 ?sorted)"
    by (rule sorted_wrt_take) (rule sorted_desc_sort_key)
  moreover have "prefix (filter (\<lambda>e. entry_score e = k) (take 5 ?sorted))
                   (filter (\<lambda>e. entry_score e = k) (high_scores s @ [?new]))" for k
    using filter_take_prefix [of "\<lambda>e. entry_score e = k" 5 ?sorted]
    by (simp only: filter_sort_desc)
  ultimately show ?thesis
    unfolding hs by blast
qed

section \<open>The player's update\<close>

text \<open>
  C2, as claimed: with left and right both held the horizontal component is 0. It is
  not: the \<open>if\<close> for the right key runs after the one for the left key and overwrites
  it, so the component is 1, also in the velocity the update stores.
\<close>

theorem opposite_keys_cancel_counterexample:
  "(K_LEFT left_right_held \<or> K_a left_right_held)
   \<and> (K_RIGHT left_right_held \<or> K_d left_right_held)
   \<and> vx (key_velocity left_right_held) \<noteq> 0
   \<and> vx (velocity (Fish_update (1/50) left_right_held (Fish_init 400 300))) = 1"
  by (simp add: left_right_held_def key_velocity_def vec_def Fish_update_def Fish_init_def
        Let_def v_length_def normalize_ip_def)

text \<open>
  C2, amended: when both keys of an axis are held, the key tested later wins: right
  over left, down over up, so the component on that axis is 1.
\<close>

theorem opposite_keys_later_wins:
  "((K_LEFT k \<or> K_a k) \<and> (K_RIGHT k \<or> K_d k) \<longrightarrow> vx (key_velocity k) = 1)
   \<and> ((K_UP k \<or> K_w k) \<and> (K_DOWN k \<or> K_s k) \<longrightarrow> vy (key_velocity k) = 1)"
  by (simp add: key_velocity_def vec_def Let_def)

theorem opposite_keys_later_wins_witness:
  "(K_LEFT all_held \<or> K_a all_held) \<and> (K_RIGHT all_held \<or> K_d all_held)
   \<and> (K_UP all_held \<or> K_w all_held) \<and> (K_DOWN all_held \<or> K_s all_held)
   \<and> vx (key_velocity all_held) = 1 \<and> vy (key_velocity all_held) = 1"
  using opposite_keys_later_wins [of all_held] by (simp add: all_held_def)

text \<open>
  C10. After \<open>Fish.update\<close>, whatever \<open>dt\<close> and the keys, the position lies in
  \<open>[0, SCREEN_WIDTH - size.x] \<times> [0, SCREEN_HEIGHT - size.y]\<close>, for a fish no larger
  than the screen (the player is 100 by 70).
\<close>

theorem Fish_update_in_field:
  assumes "vx (obj_size p) \<le> SCREEN_WIDTH" and "vy (obj_size p) \<le> SCREEN_HEIGHT"
  shows "0 \<le> vx (position (Fish_update dt k p))
       \<and> vx (position (Fish_update dt k p)) \<le> SCREEN_WIDTH - vx (obj_size (Fish_update dt k p))
       \<and> 0 \<le> vy (position (Fish_update dt k p))
       \<and> vy (position (Fish_update dt k p)) \<le> SCREEN_HEIGHT - vy (obj_size (Fish_update dt k p))"
  using assms by (simp add: Fish_update_def Let_def)

theorem Fish_update_in_field_witness:
  "vx (obj_size (Fish_init 690 5)) \<le> SCREEN_WIDTH
   \<and> vy (obj_size (Fish_init 690 5)) \<le> SCREEN_HEIGHT
   \<and> 0 \<le> vx (position (Fish_update 1 right_held (Fish_init 690 5)))
   \<and> vx (position (Fish_update 1 right_held (Fish_init 690 5))) \<le> 700
   \<and> 0 \<le> vy (position (Fish_update 1 right_held (Fish_init 690 5)))
   \<and> vy (position (Fish_update 1 right_held (Fish_init 690 5))) \<le> 530"
proof -
  have size: "obj_size (Fish_update 1 right_held (Fish_init 690 5)) = vec 100 70"
    by (simp add: Fish_update_def Fish_init_def Let_def)
  have small: "vx (obj_size (Fish_init 690 5)) \<le> SCREEN_WIDTH"
    "vy (obj_size (Fish_init 690 5)) \<le> SCREEN_HEIGHT"
    by (simp_all add: Fish_init_def vec_def SCREEN_WIDTH_def SCREEN_HEIGHT_def)
  from Fish_update_in_field [OF small, of 1 right_held] small show ?thesis
    by (simp add: size vec_def SCREEN_WIDTH_def SCREEN_HEIGHT_def)
qed

section \<open>Loading the high scores\<close>

text \<open>
  C4, as claimed: malformed score data loads as the empty list without an error. It
  does not: text that \<open>json.load\<close> rejects raises, and a JSON value of another shape
  is returned as it is.
\<close>

theorem load_high_scores_malformed_counterexample:
  "load_high_scores Garbled = Inl JSONDecodeError
   \<and> load_high_scores (Holds (JDict [])) \<noteq> Inr (JList [])"
  by (simp add: load_high_scores_def)

text \<open>
  C4, amended: \<open>load_high_scores\<close> returns the empty list when the file does not
  exist; when it exists, the error of \<open>json.load\<close> propagates, and a value that
  \<open>json.load\<close> returns is returned unchanged, whatever its shape.
\<close>

theorem load_high_scores_cases:
  "load_high_scores Absent = Inr (JList [])
   \<and> load_high_scores Garbled = Inl JSONDecodeError
   \<and> load_high_scores (Holds v) = Inr v"
  by (simp add: load_high_scores_def)

lemma v_length_normalize_ip:
  assumes "v_length v > 0"
  shows "v_length (normalize_ip v) = 1"
proof -
  let ?l = "v_length v"
  have sq: "?l * ?l = vx v * vx v + vy v * vy v"
    unfolding v_length_def by (simp add: power2_eq_square [symmetric])
  have "vx v / ?l * (vx v / ?l) + vy v / ?l * (vy v / ?l) = (vx v * vx v + vy v * vy v) / (?l * ?l)"
    by (simp add: add_divide_distrib)
  also have "\<dots> = (?l * ?l) / (?l * ?l)" by (simp only: sq)
  also have "\<dots> = 1" using assms by simp
  finally show ?thesis
    by (simp add: v_length_def normalize_ip_def)
qed

lemma v_length_v_scale: "v_length (v_scale v c) = v_length v * \<bar>c\<bar>"
proof -
  have "vx v * c * (vx v * c) + vy v * c * (vy v * c) = (vx v * vx v + vy v * vy v) * (c * c)"
    by (simp add: algebra_simps)
  then show ?thesis
    by (simp add: v_length_def v_scale_def real_sqrt_mult)
qed

lemma v_sub_v_add: "v_sub (v_add a b) a = b"
  by (simp add: v_sub_def v_add_def)

lemma position_Fish_update_free:
  assumes "v_length (key_velocity k) > 0"
    and "0 \<le> vx (free_step dt k p)" and "vx (free_step dt k p) \<le> SCREEN_WIDTH - vx (obj_size p)"
    and "0 \<le> vy (free_step dt k p)" and "vy (free_step dt k p) \<le> SCREEN_HEIGHT - vy (obj_size p)"
  shows "position (Fish_update dt k p) = free_step dt k p"
  using assms by (simp add: Fish_update_def free_step_def Let_def max_def min_def)

text \<open>
  C9, as claimed: with a non-zero velocity the player moves by exactly
  \<open>speed \<times> dt\<close>. Not at the edge of the field: at \<open>x = 700\<close> with right held the
  clamp puts the player back where it was, and the displacement is 0.
\<close>

theorem displacement_at_edge_counterexample:
  "v_length (key_velocity right_held) > 0
   \<and> position (Fish_update (1/50) right_held (Fish_init 700 300)) = position (Fish_init 700 300)
   \<and> v_length (v_sub (position (Fish_update (1/50) right_held (Fish_init 700 300)))
                      (position (Fish_init 700 300)))
       \<noteq> speed (Fish_init 700 300) * (1/50)"
  by (simp add: Fish_update_def Fish_init_def key_velocity_def right_held_def vec_def
        v_length_def normalize_ip_def v_add_def v_sub_def v_scale_def
        SCREEN_WIDTH_def SCREEN_HEIGHT_def Let_def)

text \<open>
  C9, amended: with a non-zero velocity, \<open>dt \<ge> 0\<close> and a speed that is not negative,
  if the position line 88 computes lies in the field, so that the clamp leaves it
  alone, the length of the displacement is \<open>speed \<times> dt\<close> (over the reals), whether
  one axis or two are active.
\<close>

theorem displacement_when_unclamped:
  assumes "v_length (key_velocity k) > 0" and "0 \<le> speed p" and "0 \<le> dt"
    and "0 \<le> vx (free_step dt k p)" and "vx (free_step dt k p) \<le> SCREEN_WIDTH - vx (obj_size p)"
    and "0 \<le> vy (free_step dt k p)" and "vy (free_step dt k p) \<le> SCREEN_HEIGHT - vy (obj_size p)"
  shows "v_length (v_sub (position (Fish_update dt k p)) (position p)) = speed p * dt"
proof -
  have "position (Fish_update dt k p) = free_step dt k p"
    using assms by (intro position_Fish_update_free)
  then have "v_sub (position (Fish_update dt k p)) (position p)
      = v_scale (v_scale (normalize_ip (key_velocity k)) (speed p)) dt"
    by (simp add: free_step_def v_sub_v_add)
  then show ?thesis
    using assms(1-3) by (simp add: v_length_v_scale v_length_normalize_ip)
qed

theorem displacement_when_unclamped_witness:
  "v_length (key_velocity right_held) > 0
   \<and> 0 \<le> speed (Fish_init 400 300) \<and> (0::real) \<le> 1/50
   \<and> free_step (1/50) right_held (Fish_init 400 300) = vec (4069/10) 300
   \<and> v_length (v_sub (position (Fish_update (1/50) right_held (Fish_init 400 300)))
                      (position (Fish_init 400 300))) = 69/10"
proof -
  have kv: "key_velocity right_held = vec 1 0"
    by (simp add: key_velocity_def right_held_def vec_def)
  have len: "v_length (key_velocity right_held) > 0"
    by (simp add: kv v_length_def vec_def)
  have fs: "free_step (1/50) right_held (Fish_init 400 300) = vec (4069/10) 300"
    by (simp add: free_step_def kv normalize_ip_def v_length_def vec_def v_add_def v_scale_def
          Fish_init_def)
  have sp: "0 \<le> speed (Fish_init 400 300)" "speed (Fish_init 400 300) = 345"
    "obj_size (Fish_init 400 300) = vec 100 70"
    by (simp_all add: Fish_init_def)
  have dt: "(0::real) \<le> 1/50" by simp
  have b: "0 \<le> vx (free_step (1/50) right_held (Fish_init 400 300))"
    "vx (free_step (1/50) right_held (Fish_init 400 300))
       \<le> SCREEN_WIDTH - vx (obj_size (Fish_init 400 300))"
    "0 \<le> vy (free_step (1/50) right_held (Fish_init 400 300))"
    "vy (free_step (1/50) right_held (Fish_init 400 300))
       \<le> SCREEN_HEIGHT - vy (obj_size (Fish_init 400 300))"
    by (simp_all add: fs sp vec_def SCREEN_WIDTH_def SCREEN_HEIGHT_def)
  from displacement_when_unclamped [OF len sp(1) dt b] len sp(1) fs show ?thesis
    by (simp add: sp(2))
qed

section \<open>The collision test\<close>

lemma py_int_numeral [simp]: "py_int (numeral n) = numeral n"
  by (simp add: py_int_def)

lemma py_int_neg_numeral [simp]: "py_int (- numeral n) = - numeral n"
  by (simp add: py_int_def)






section \<open>Confirming a name\<close>

lemma bob_session_fields:
  "username bob_session = ''Bob''"
  "state (enter_name_mode bob_session) = NAME_INPUT"
  "username (enter_name_mode bob_session) = ''Bob''"
  "username_input (enter_name_mode bob_session) = []"
  by (simp_all add: bob_session_def enter_name_mode_def SharkChaseGame_init_def)

text \<open>\<open>bob_session\<close> is what typing \<open>Bob\<close> and Return in name mode leads to.\<close>

lemma bob_session_reached:
  "handle_events 0
     [KEYDOWN K_OTHER ''B'', KEYDOWN K_OTHER ''o'', KEYDOWN K_OTHER ''b'',
      KEYDOWN K_RETURN [CHR 0x0D]]
     (enter_name_mode (SharkChaseGame_init 0 [] Absent)) = Some bob_session"
  by (simp add: handle_event_def enter_name_mode_def SharkChaseGame_init_def bob_session_def
        isprintable_def strip_def isspace_def)

text \<open>
  C3, as claimed: confirming an empty or whitespace-only buffer keeps the previous
  username. It does not: with the username \<open>Bob\<close>, confirming the empty buffer, or a
  buffer of two spaces, sets the username to \<open>Player\<close>.
\<close>

theorem empty_name_keeps_previous_counterexample:
  "username bob_session = ''Bob''
   \<and> state (enter_name_mode bob_session) = NAME_INPUT
   \<and> username_input (enter_name_mode bob_session) = []
   \<and> map_option username
        (handle_event 0 (KEYDOWN K_RETURN [CHR 0x0D]) (enter_name_mode bob_session))
       = Some ''Player''
   \<and> map_option username
        (handle_events 0 [KEYDOWN K_OTHER '' '', KEYDOWN K_OTHER '' '', KEYDOWN K_RETURN [CHR 0x0D]]
           (enter_name_mode bob_session))
       = Some ''Player''"
  by (simp add: bob_session_fields handle_event_def isprintable_def strip_def isspace_def)

text \<open>
  C3, amended: on confirm in name mode, the username becomes the trimmed buffer, or
  the default \<open>Player\<close> when the trimmed buffer is empty, and the state becomes the
  menu.
\<close>

theorem confirm_name:
  assumes "state s = NAME_INPUT"
  shows "handle_event now (KEYDOWN K_RETURN u) s
           = Some (s\<lparr>username := (if strip (username_input s) = [] then ''Player''
                                   else strip (username_input s)),
                      state := MENU\<rparr>)"
  using assms by (simp add: handle_event_def)

theorem confirm_name_witness:
  "state ((enter_name_mode bob_session)\<lparr>username_input := '' Al ''\<rparr>) = NAME_INPUT
   \<and> map_option username
        (handle_event 0 (KEYDOWN K_RETURN [CHR 0x0D])
           ((enter_name_mode bob_session)\<lparr>username_input := '' Al ''\<rparr>)) = Some ''Al''
   \<and> map_option state
        (handle_event 0 (KEYDOWN K_RETURN [CHR 0x0D])
           ((enter_name_mode bob_session)\<lparr>username_input := '' Al ''\<rparr>)) = Some MENU"
proof -
  have st: "state ((enter_name_mode bob_session)\<lparr>username_input := '' Al ''\<rparr>) = NAME_INPUT"
    by (simp add: bob_session_fields)
  have tr: "strip '' Al '' = ''Al''"
    by (simp add: strip_def isspace_def)
  from confirm_name [OF st, of 0 "[CHR 0x0D]"] st show ?thesis
    by (simp add: tr)
qed

section \<open>What each part of a frame leaves alone\<close>

lemma update_high_scores_keeps:
  "state (update_high_scores s) = state s"
  "username (update_high_scores s) = username s"
  "score (update_high_scores s) = score s"
  "player (update_high_scores s) = player s"
  "sharks (update_high_scores s) = sharks s"
  "powerups (update_high_scores s) = powerups s"
  "spawn_rate (update_high_scores s) = spawn_rate s"
  "last_spawn_time (update_high_scores s) = last_spawn_time s"
  "powerup_spawn_rate (update_high_scores s) = powerup_spawn_rate s"
  "last_powerup_spawn_time (update_high_scores s) = last_powerup_spawn_time s"
  "difficulty (update_high_scores s) = difficulty s"
  by (simp_all add: update_high_scores_def save_high_scores_def Let_def)

lemma shark_hit_keeps:
  "username (shark_hit sh s) = username s"
  "score (shark_hit sh s) = score s"
  "player (shark_hit sh s) = player s"
  "sharks (shark_hit sh s) = sharks s"
  "powerups (shark_hit sh s) = powerups s"
  "spawn_rate (shark_hit sh s) = spawn_rate s"
  "last_spawn_time (shark_hit sh s) = last_spawn_time s"
  "powerup_spawn_rate (shark_hit sh s) = powerup_spawn_rate s"
  "last_powerup_spawn_time (shark_hit sh s) = last_powerup_spawn_time s"
  "difficulty (shark_hit sh s) = difficulty s"
  by (simp_all add: shark_hit_def update_high_scores_keeps)

lemma shark_hit_lethal:
  assumes "collides_with sh (player s)" and "\<not> invincible (player s)"
  shows "shark_hit sh s = (update_high_scores s)\<lparr>state := GAMEOVER\<rparr>"
  using assms by (simp add: shark_hit_def)

lemma shark_loop_keeps:
  "username (snd (shark_loop dt env c i shs s)) = username s"
  "score (snd (shark_loop dt env c i shs s)) = score s"
  "player (snd (shark_loop dt env c i shs s)) = player s"
  "powerups (snd (shark_loop dt env c i shs s)) = powerups s"
  "spawn_rate (snd (shark_loop dt env c i shs s)) = spawn_rate s"
  "last_spawn_time (snd (shark_loop dt env c i shs s)) = last_spawn_time s"
  "powerup_spawn_rate (snd (shark_loop dt env c i shs s)) = powerup_spawn_rate s"
  "last_powerup_spawn_time (snd (shark_loop dt env c i shs s)) = last_powerup_spawn_time s"
  "difficulty (snd (shark_loop dt env c i shs s)) = difficulty s"
  by (induction shs arbitrary: i s; simp add: Let_def shark_hit_keeps)+

lemma length_shark_loop: "length (fst (shark_loop dt env c i shs s)) = length shs"
  by (induction shs arbitrary: i s) (simp_all add: Let_def)

lemma shark_loop_two:
  "snd (shark_loop dt env c i [a, b] s)
     = shark_hit (Shark_update dt c (jitter env (Suc i)) b)
         (shark_hit (Shark_update dt c (jitter env i) a) s)"
  by (simp add: Let_def)

lemma shark_loop_one:
  "snd (shark_loop dt env c i [a] s) = shark_hit (Shark_update dt c (jitter env i) a) s"
  by (simp add: Let_def)

lemma pickup_keeps:
  "state (pickup env i t s) = state s"
  "username (pickup env i t s) = username s"
  "high_scores (pickup env i t s) = high_scores s"
  "high_score_file (pickup env i t s) = high_score_file s"
  "powerups (pickup env i t s) = powerups s"
  "spawn_rate (pickup env i t s) = spawn_rate s"
  "last_spawn_time (pickup env i t s) = last_spawn_time s"
  "powerup_spawn_rate (pickup env i t s) = powerup_spawn_rate s"
  "last_powerup_spawn_time (pickup env i t s) = last_powerup_spawn_time s"
  "difficulty (pickup env i t s) = difficulty s"
  "length (sharks (pickup env i t s)) = length (sharks s)"
  by (simp_all add: pickup_def make_invincible_def slow_sharks_def add_bonus_def Let_def)

lemma powerup_loop_keeps:
  "state (snd (powerup_loop env i ps s)) = state s"
  "username (snd (powerup_loop env i ps s)) = username s"
  "high_scores (snd (powerup_loop env i ps s)) = high_scores s"
  "high_score_file (snd (powerup_loop env i ps s)) = high_score_file s"
  "spawn_rate (snd (powerup_loop env i ps s)) = spawn_rate s"
  "last_spawn_time (snd (powerup_loop env i ps s)) = last_spawn_time s"
  "powerup_spawn_rate (snd (powerup_loop env i ps s)) = powerup_spawn_rate s"
  "last_powerup_spawn_time (snd (powerup_loop env i ps s)) = last_powerup_spawn_time s"
  "difficulty (snd (powerup_loop env i ps s)) = difficulty s"
  "length (sharks (snd (powerup_loop env i ps s))) = length (sharks s)"
  by (induction ps arbitrary: i s; simp add: Let_def pickup_keeps)+

lemma powerup_pass_keeps:
  "state (powerup_pass env s) = state s"
  "high_scores (powerup_pass env s) = high_scores s"
  "spawn_rate (powerup_pass env s) = spawn_rate s"
  "last_spawn_time (powerup_pass env s) = last_spawn_time s"
  "length (sharks (powerup_pass env s)) = length (sharks s)"
  by (simp_all add: powerup_pass_def Let_def powerup_loop_keeps)

lemma shark_pass_keeps:
  "score (shark_pass dt env s) = score s"
  "player (shark_pass dt env s) = player s"
  "powerups (shark_pass dt env s) = powerups s"
  "spawn_rate (shark_pass dt env s) = spawn_rate s"
  "last_spawn_time (shark_pass dt env s) = last_spawn_time s"
  "length (sharks (shark_pass dt env s)) = length (sharks s)"
  by (simp_all add: shark_pass_def Let_def shark_loop_keeps length_shark_loop)

lemma advance_player_keeps:
  "state (advance_player dt env s) = state s"
  "username (advance_player dt env s) = username s"
  "high_scores (advance_player dt env s) = high_scores s"
  "sharks (advance_player dt env s) = sharks s"
  "powerups (advance_player dt env s) = powerups s"
  "spawn_rate (advance_player dt env s) = spawn_rate s"
  "last_spawn_time (advance_player dt env s) = last_spawn_time s"
  "score (advance_player dt env s) = score s + dt * 20"
  "player (advance_player dt env s) = Fish_update dt (pressed env) (player s)"
  by (simp_all add: advance_player_def Let_def)

lemma spawn_pass_keeps:
  "state (spawn_pass env s) = state s"
  "high_scores (spawn_pass env s) = high_scores s"
  "score (spawn_pass env s) = score s"
  "length (sharks (spawn_pass env s))
     = length (sharks s) + (if ticks env 0 - last_spawn_time s > spawn_rate s then 1 else 0)"
  by (simp_all add: spawn_pass_def spawn_shark_def spawn_powerup_def Let_def)

lemma timers_kept:
  "powerup_spawn_rate (shark_pass dt env s) = powerup_spawn_rate s"
  "last_powerup_spawn_time (shark_pass dt env s) = last_powerup_spawn_time s"
  "powerup_spawn_rate (advance_player dt env s) = powerup_spawn_rate s"
  "last_powerup_spawn_time (advance_player dt env s) = last_powerup_spawn_time s"
  by (simp_all add: shark_pass_def advance_player_def Let_def shark_loop_keeps)

lemma powerups_spawn_pass:
  "powerups (spawn_pass env s)
     = powerups s
       @ (if ticks env (if ticks env 0 - last_spawn_time s > spawn_rate s then 2 else 1)
              - last_powerup_spawn_time s > powerup_spawn_rate s
          then [Powerup_init (powerup_x env) (powerup_y env) (powerup_kind env)] else [])"
  by (simp add: spawn_pass_def spawn_shark_def spawn_powerup_def Let_def)

lemma spawn_pass_idle:
  assumes "\<not> ticks env 0 - last_spawn_time s > spawn_rate s"
    and "\<not> ticks env 1 - last_powerup_spawn_time s > powerup_spawn_rate s"
  shows "spawn_pass env s = s"
  using assms by (simp add: spawn_pass_def Let_def)

lemma shark_pass_no_sharks:
  assumes "sharks s = []"
  shows "shark_pass dt env s = s"
  using assms by (simp add: shark_pass_def Let_def)

lemma pickup_Score: "pickup env i Score s = add_bonus s"
  by (simp add: pickup_def)

lemma powerup_loop_one_hit:
  assumes "collides_with p (player s)"
  shows "powerup_loop env i [p] s = ([p\<lparr>active := False\<rparr>], pickup env i (ptype p) s)"
  using assms by (simp add: Let_def)

lemma powerup_pass_one_hit:
  assumes "powerups s = [p]" and "collides_with p (player s)"
  shows "powerup_pass env s = (pickup env 0 (ptype p) s)\<lparr>powerups := []\<rparr>"
  using assms by (simp add: powerup_pass_def powerup_loop_one_hit Let_def)

section \<open>The concrete frames\<close>

lemma sqrt_625: "sqrt 625 = 25"
  by (rule real_sqrt_unique) simp_all

lemma sqrt_1225: "sqrt 1225 = 35"
  by (rule real_sqrt_unique) simp_all

lemma Fish_update_idle: "Fish_update dt no_keys (Fish_init 400 300) = Fish_init 400 300"
  by (simp add: Fish_update_def Fish_init_def key_velocity_def key_direction_def no_keys_def
        vec_def v_length_def v_add_def v_scale_def SCREEN_WIDTH_def SCREEN_HEIGHT_def Let_def)

lemma center_player: "center (get_rect (Fish_init 400 300) 0) = (450, 335)"
  by (simp add: center_def get_rect_def Fish_init_def vec_def signed_divide_int_def)

lemma shark_a_moves:
  "Shark_update (1/50) (vec 450 335) (vec (7/25) (-1/25)) (Shark_init 450 300 190)
     = Shark_init (56383/125) (37956/125) 190"
  by (simp add: Shark_update_def Shark_init_def vec_def v_add_def v_sub_def v_scale_def
        v_length_def normalize_ip_def sqrt_1225 Let_def)

lemma shark_b_moves:
  "Shark_update (1/50) (vec 450 335) (vec (7/25) (-1/25)) (Shark_init 450 310 190)
     = Shark_init (56383/125) (39206/125) 190"
  by (simp add: Shark_update_def Shark_init_def vec_def v_add_def v_sub_def v_scale_def
        v_length_def normalize_ip_def sqrt_625 Let_def)

lemma shark_a_hits: "collides_with (Shark_init (56383/125) (37956/125) 190) (Fish_init 400 300)"
  by (simp add: collides_with_def overlaps_def colliderect_def get_rect_def Shark_init_def
        Fish_init_def vec_def py_int_def)

lemma shark_b_hits: "collides_with (Shark_init (56383/125) (39206/125) 190) (Fish_init 400 300)"
  by (simp add: collides_with_def overlaps_def colliderect_def get_rect_def Shark_init_def
        Fish_init_def vec_def py_int_def)

lemma two_shark_session_fields:
  "state two_shark_session = PLAYING"
  "player two_shark_session = Fish_init 400 300"
  "sharks two_shark_session = [Shark_init 450 300 190, Shark_init 450 310 190]"
  "username two_shark_session = ''Player''"
  "score two_shark_session = 100"
  "high_scores two_shark_session = []"
  by (simp_all add: two_shark_session_def start_game_def SharkChaseGame_init_def Fish_init_def
        vec_def SCREEN_WIDTH_def SCREEN_HEIGHT_def)

lemma calm_env_fields:
  "pressed (calm_env t) = no_keys"
  "ticks (calm_env t) n = t"
  "jitter (calm_env t) i = vec (7/25) (-1/25)"
  by (simp_all add: calm_env_def)

lemma powerup_hits: "collides_with (Powerup_init 440 330 Score) (Fish_init 400 300)"
  by (simp add: collides_with_def overlaps_def colliderect_def get_rect_def Powerup_init_def
        Fish_init_def vec_def py_int_def)

lemma bonus_session_fields:
  "state bonus_session = PLAYING"
  "player bonus_session = Fish_init 400 300"
  "sharks bonus_session = []"
  "powerups bonus_session = [Powerup_init 440 330 Score]"
  "score bonus_session = 0"
  "spawn_rate bonus_session = 2000"
  "last_spawn_time bonus_session = 0"
  "powerup_spawn_rate bonus_session = 10000"
  "last_powerup_spawn_time bonus_session = 0"
  by (simp_all add: bonus_session_def start_game_def SharkChaseGame_init_def Fish_init_def
        vec_def SCREEN_WIDTH_def SCREEN_HEIGHT_def)

lemma lethal_session_fields:
  "state lethal_session = PLAYING"
  "player lethal_session = Fish_init 400 300"
  "sharks lethal_session = [Shark_init 450 300 190]"
  "powerups lethal_session = [Powerup_init 440 330 Score]"
  "username lethal_session = ''Player''"
  "score lethal_session = 100"
  "high_scores lethal_session = []"
  "spawn_rate lethal_session = 2000"
  "last_spawn_time lethal_session = 0"
  "powerup_spawn_rate lethal_session = 10000"
  "last_powerup_spawn_time lethal_session = 0"
  by (simp_all add: lethal_session_def start_game_def SharkChaseGame_init_def Fish_init_def
        vec_def SCREEN_WIDTH_def SCREEN_HEIGHT_def)

lemma lethal_session_sharks_done:
  "state (shark_pass (1/50) (calm_env 3000) (advance_player (1/50) (calm_env 3000) lethal_session))
     = GAMEOVER"
  "high_scores
     (shark_pass (1/50) (calm_env 3000) (advance_player (1/50) (calm_env 3000) lethal_session))
     = [\<lparr>entry_name = ''Player'', entry_score = 100\<rparr>]"
  "player (shark_pass (1/50) (calm_env 3000) (advance_player (1/50) (calm_env 3000) lethal_session))
     = Fish_init 400 300"
proof -
  let ?env = "calm_env 3000"
  let ?s1 = "advance_player (1/50) ?env lethal_session"
  let ?a = "Shark_init (56383/125) (37956/125) 190"
  let ?s2 = "shark_pass (1/50) ?env ?s1"
  have p1: "player ?s1 = Fish_init 400 300"
    by (simp add: advance_player_keeps lethal_session_fields calm_env_fields Fish_update_idle)
  have inv: "\<not> invincible (Fish_init 400 300)"
    by (simp add: Fish_init_def)
  have loop: "snd (shark_loop (1/50) ?env (vec 450 335) 0 (sharks ?s1) ?s1) = shark_hit ?a ?s1"
    by (simp only: advance_player_keeps lethal_session_fields shark_loop_one calm_env_fields
          shark_a_moves)
  have hit_a: "shark_hit ?a ?s1 = (update_high_scores ?s1)\<lparr>state := GAMEOVER\<rparr>"
    by (rule shark_hit_lethal) (simp_all add: p1 shark_a_hits inv)
  have pass: "?s2 = (shark_hit ?a ?s1)
           \<lparr>sharks := fst (shark_loop (1/50) ?env (vec 450 335) 0 (sharks ?s1) ?s1)\<rparr>"
    by (simp add: shark_pass_def p1 center_player loop Let_def)
  show "state ?s2 = GAMEOVER"
    by (simp add: pass hit_a)
  show "high_scores ?s2 = [\<lparr>entry_name = ''Player'', entry_score = 100\<rparr>]"
    by (simp add: pass hit_a high_scores_update_high_scores advance_player_keeps
          lethal_session_fields py_int_def)
  show "player ?s2 = Fish_init 400 300"
    by (simp only: shark_pass_keeps p1)
qed

section \<open>Picking up a power-up\<close>

text \<open>
  C5, as claimed: the collision test never reports overlap for a 30 by 30 power-up,
  so no power-up is ever picked up. It does report overlap: the eroded box has width
  and height \<open>-6\<close>, which \<open>colliderect\<close> reads as the 6 by 6 box ending at the
  eroded corner. A score power-up at \<open>(440, 330)\<close> collides with the player at
  \<open>(400, 300)\<close>; the frame adds the bonus of 200 to the score and removes the
  power-up.
\<close>

theorem powerup_never_collected_counterexample:
  "collides_with (Powerup_init 440 330 Score) (Fish_init 400 300)
   \<and> state bonus_session = PLAYING
   \<and> player bonus_session = Fish_init 400 300
   \<and> powerups bonus_session = [Powerup_init 440 330 Score]
   \<and> score bonus_session = 0
   \<and> score (update (1/50) (calm_env 1000) bonus_session) = 1002 / 5
   \<and> powerups (update (1/50) (calm_env 1000) bonus_session) = []"
proof -
  let ?env = "calm_env 1000"
  let ?s1 = "advance_player (1/50) ?env bonus_session"
  have p1: "player ?s1 = Fish_init 400 300"
    by (simp add: advance_player_keeps bonus_session_fields calm_env_fields Fish_update_idle)
  have s2: "shark_pass (1/50) ?env ?s1 = ?s1"
    by (rule shark_pass_no_sharks) (simp add: advance_player_keeps bonus_session_fields)
  have pw: "powerups ?s1 = [Powerup_init 440 330 Score]"
    by (simp add: advance_player_keeps bonus_session_fields)
  have c1: "collides_with (Powerup_init 440 330 Score) (player ?s1)"
    by (simp only: p1 powerup_hits)
  have s3: "powerup_pass ?env ?s1 = (add_bonus ?s1)\<lparr>powerups := []\<rparr>"
    using powerup_pass_one_hit [OF pw c1, of ?env]
    by (simp add: pickup_Score Powerup_init_def)
  have s4: "spawn_pass ?env ((add_bonus ?s1)\<lparr>powerups := []\<rparr>) = (add_bonus ?s1)\<lparr>powerups := []\<rparr>"
    by (rule spawn_pass_idle)
       (simp_all add: add_bonus_def calm_env_fields advance_player_def bonus_session_fields Let_def)
  have u: "update (1/50) ?env bonus_session = (add_bonus ?s1)\<lparr>powerups := []\<rparr>"
    by (simp add: update_def bonus_session_fields s2 s3 s4)
  show ?thesis
    by (simp add: u powerup_hits bonus_session_fields add_bonus_def advance_player_keeps)
qed

lemma collides_with_same_box:
  assumes "position a = position b" and "obj_size a = obj_size b"
  shows "collides_with p a = collides_with p b"
  using assms by (simp add: collides_with_def overlaps_def get_rect_def)

lemma pickup_player_box:
  "position (player (pickup env i t s)) = position (player s)"
  "obj_size (player (pickup env i t s)) = obj_size (player s)"
  by (simp_all add: pickup_def make_invincible_def slow_sharks_def add_bonus_def Let_def)

lemma powerup_loop_fold:
  assumes "position (player s) = position f" and "obj_size (player s) = obj_size f"
  shows "powerup_loop env i ps s
     = (map (\<lambda>q. if collides_with q f then q\<lparr>active := False\<rparr> else q) ps,
        fold (\<lambda>(j, q). pickup env j (ptype q))
          (filter (\<lambda>(j, q). collides_with q f) (enumerate i ps)) s)"
  using assms
proof (induction ps arbitrary: i s)
  case Nil
  then show ?case by simp
next
  case (Cons q ps)
  have same: "collides_with q (player s) = collides_with q f"
    using Cons.prems by (rule collides_with_same_box)
  show ?case
  proof (cases "collides_with q f")
    case True
    have "position (player (pickup env i (ptype q) s)) = position f"
      "obj_size (player (pickup env i (ptype q) s)) = obj_size f"
      using Cons.prems by (simp_all add: pickup_player_box)
    from Cons.IH [OF this] True same show ?thesis
      by (simp add: Let_def)
  next
    case False
    from Cons.IH [OF Cons.prems] False same show ?thesis
      by (simp add: Let_def)
  qed
qed

lemma filter_active_marked:
  "filter active (map (\<lambda>q. if c q then q\<lparr>active := False\<rparr> else q) ps)
     = filter (\<lambda>q. active q \<and> \<not> c q) ps"
  by (induction ps) simp_all

lemma powerup_pass_fold:
  "powerup_pass env s
     = (fold (\<lambda>(i, q). pickup env i (ptype q))
          (filter (\<lambda>(i, q). collides_with q (player s)) (enumerate 0 (powerups s))) s)
       \<lparr>powerups := filter (\<lambda>q. active q \<and> \<not> collides_with q (player s)) (powerups s)\<rparr>"
  by (simp add: powerup_pass_def Let_def powerup_loop_fold [OF refl refl] filter_active_marked)

lemma powerup_misses: "\<not> collides_with (Powerup_init 100 100 Slow) (Fish_init 400 300)"
  by (simp add: collides_with_def overlaps_def colliderect_def get_rect_def Powerup_init_def
        Fish_init_def vec_def)

lemma two_powerup_session_fields:
  "player two_powerup_session = Fish_init 400 300"
  "powerups two_powerup_session = [Powerup_init 100 100 Slow, Powerup_init 440 330 Score]"
  "score two_powerup_session = 0"
  by (simp_all add: two_powerup_session_def start_game_def SharkChaseGame_init_def Fish_init_def
        vec_def SCREEN_WIDTH_def SCREEN_HEIGHT_def)

text \<open>
  C5, amended: for a 30 by 30 power-up and the 100 by 70 player, the collision test
  reports overlap exactly when the 6 by 6 box that ends at the power-up's eroded corner
  strictly intersects the player's eroded 64 by 34 box. Every power-up of the live list
  that overlaps the player is picked up: the effects of the overlapping power-ups are
  applied in list order, and the list that remains is the active power-ups that do not
  overlap.
\<close>

theorem powerup_hitbox:
  assumes "obj_size p = vec 30 30" and "obj_size (player s) = vec 100 70"
  shows "(collides_with p (player s) \<longleftrightarrow>
            py_int (vx (position p) + 18) - 6 < py_int (vx (position (player s)) + 18) + 64
          \<and> py_int (vx (position (player s)) + 18) < py_int (vx (position p) + 18)
          \<and> py_int (vy (position p) + 18) - 6 < py_int (vy (position (player s)) + 18) + 34
          \<and> py_int (vy (position (player s)) + 18) < py_int (vy (position p) + 18))
       \<and> powerups (powerup_pass env s)
           = filter (\<lambda>q. active q \<and> \<not> collides_with q (player s)) (powerups s)
       \<and> powerup_pass env s
           = (fold (\<lambda>(i, q). pickup env i (ptype q))
                (filter (\<lambda>(i, q). collides_with q (player s)) (enumerate 0 (powerups s))) s)
             \<lparr>powerups := filter (\<lambda>q. active q \<and> \<not> collides_with q (player s)) (powerups s)\<rparr>"
proof -
  have box: "collides_with p (player s) \<longleftrightarrow>
            py_int (vx (position p) + 18) - 6 < py_int (vx (position (player s)) + 18) + 64
          \<and> py_int (vx (position (player s)) + 18) < py_int (vx (position p) + 18)
          \<and> py_int (vy (position p) + 18) - 6 < py_int (vy (position (player s)) + 18) + 34
          \<and> py_int (vy (position (player s)) + 18) < py_int (vy (position p) + 18)"
    using assms
    by (auto simp: collides_with_def overlaps_def colliderect_def get_rect_def vec_def)
  have pass: "powerup_pass env s
           = (fold (\<lambda>(i, q). pickup env i (ptype q))
                (filter (\<lambda>(i, q). collides_with q (player s)) (enumerate 0 (powerups s))) s)
             \<lparr>powerups := filter (\<lambda>q. active q \<and> \<not> collides_with q (player s)) (powerups s)\<rparr>"
    by (rule powerup_pass_fold)
  have live: "powerups (powerup_pass env s)
           = filter (\<lambda>q. active q \<and> \<not> collides_with q (player s)) (powerups s)"
    by (subst pass) simp
  from box live pass show ?thesis by blast
qed

theorem powerup_hitbox_witness:
  "obj_size (Powerup_init 440 330 Score) = vec 30 30
   \<and> obj_size (player two_powerup_session) = vec 100 70
   \<and> powerups two_powerup_session = [Powerup_init 100 100 Slow, Powerup_init 440 330 Score]
   \<and> collides_with (Powerup_init 440 330 Score) (player two_powerup_session)
   \<and> powerups (powerup_pass (calm_env 1000) two_powerup_session) = [Powerup_init 100 100 Slow]
   \<and> score (powerup_pass (calm_env 1000) two_powerup_session) = 200"
proof -
  let ?near = "Powerup_init 440 330 Score"
  let ?far = "Powerup_init 100 100 Slow"
  have a: "obj_size ?near = vec 30 30"
    by (simp add: Powerup_init_def)
  have b: "obj_size (player two_powerup_session) = vec 100 70"
    by (simp add: two_powerup_session_fields Fish_init_def)
  have c: "powerups two_powerup_session = [?far, ?near]"
    by (simp add: two_powerup_session_fields)
  note t = powerup_hitbox [OF a b, of "calm_env 1000"]
  have pos: "position ?near = vec 440 330" "position (player two_powerup_session) = vec 400 300"
    by (simp_all add: Powerup_init_def two_powerup_session_fields Fish_init_def)
  from t have hit: "collides_with ?near (player two_powerup_session)"
    by (simp add: pos vec_def)
  have miss: "\<not> collides_with ?far (player two_powerup_session)"
    by (simp only: two_powerup_session_fields powerup_misses not_False_eq_True)
  have act: "active ?far" "active ?near" "ptype ?near = Score"
    by (simp_all add: Powerup_init_def)
  from t have "powerups (powerup_pass (calm_env 1000) two_powerup_session)
      = filter (\<lambda>q. active q \<and> \<not> collides_with q (player two_powerup_session))
          (powerups two_powerup_session)"
    by blast
  then have live: "powerups (powerup_pass (calm_env 1000) two_powerup_session) = [?far]"
    by (simp add: c hit miss act)
  from t have "powerup_pass (calm_env 1000) two_powerup_session
      = (fold (\<lambda>(i, q). pickup (calm_env 1000) i (ptype q))
           (filter (\<lambda>(i, q). collides_with q (player two_powerup_session))
              (enumerate 0 (powerups two_powerup_session))) two_powerup_session)
        \<lparr>powerups := filter (\<lambda>q. active q \<and> \<not> collides_with q (player two_powerup_session))
                        (powerups two_powerup_session)\<rparr>"
    by blast
  then have sc: "score (powerup_pass (calm_env 1000) two_powerup_session) = 200"
    by (simp add: two_powerup_session_fields powerup_hits powerup_misses act pickup_Score
          add_bonus_def)
  from a b c hit live sc show ?thesis
    by blast
qed

section \<open>The frame of a lethal collision\<close>

text \<open>
  C1. The claim is that a frame in which sharks overlap the player submits the score
  once, also when two sharks overlap. The loop submits once for each overlapping
  shark: with two sharks on the player, the frame leaves two entries for the run in a
  list that was empty.
\<close>

theorem two_sharks_submit_twice:
  "state two_shark_session = PLAYING
   \<and> \<not> invincible (player two_shark_session)
   \<and> high_scores two_shark_session = []
   \<and> state (update (1/50) (calm_env 1000) two_shark_session) = GAMEOVER
   \<and> high_scores (update (1/50) (calm_env 1000) two_shark_session)
       = [\<lparr>entry_name = ''Player'', entry_score = 100\<rparr>,
          \<lparr>entry_name = ''Player'', entry_score = 100\<rparr>]"
proof -
  let ?env = "calm_env 1000"
  let ?s1 = "advance_player (1/50) ?env two_shark_session"
  let ?a = "Shark_init (56383/125) (37956/125) 190"
  let ?b = "Shark_init (56383/125) (39206/125) 190"
  have p1: "player ?s1 = Fish_init 400 300"
    by (simp add: advance_player_keeps two_shark_session_fields calm_env_fields Fish_update_idle)
  have inv: "\<not> invincible (Fish_init 400 300)"
    by (simp add: Fish_init_def)
  have loop: "snd (shark_loop (1/50) ?env (vec 450 335) 0 (sharks ?s1) ?s1)
                = shark_hit ?b (shark_hit ?a ?s1)"
    by (simp only: advance_player_keeps two_shark_session_fields shark_loop_two calm_env_fields
          shark_a_moves shark_b_moves)
  have hit_a: "shark_hit ?a ?s1 = (update_high_scores ?s1)\<lparr>state := GAMEOVER\<rparr>"
    by (rule shark_hit_lethal) (simp_all add: p1 shark_a_hits inv)
  have hit_b: "shark_hit ?b ((update_high_scores ?s1)\<lparr>state := GAMEOVER\<rparr>)
                 = (update_high_scores ((update_high_scores ?s1)\<lparr>state := GAMEOVER\<rparr>))\<lparr>state := GAMEOVER\<rparr>"
    by (rule shark_hit_lethal) (simp_all add: update_high_scores_keeps p1 shark_b_hits inv)
  have pass: "shark_pass (1/50) ?env ?s1
       = (shark_hit ?b (shark_hit ?a ?s1))
           \<lparr>sharks := fst (shark_loop (1/50) ?env (vec 450 335) 0 (sharks ?s1) ?s1)\<rparr>"
    by (simp add: shark_pass_def p1 center_player loop Let_def)
  have st: "state (shark_pass (1/50) ?env ?s1) = GAMEOVER"
    by (simp add: pass hit_a hit_b)
  have hs: "high_scores (shark_pass (1/50) ?env ?s1)
       = [\<lparr>entry_name = ''Player'', entry_score = 100\<rparr>,
          \<lparr>entry_name = ''Player'', entry_score = 100\<rparr>]"
    by (simp add: pass hit_a hit_b high_scores_update_high_scores update_high_scores_keeps
          advance_player_keeps two_shark_session_fields py_int_def)
  have u: "update (1/50) ?env two_shark_session
             = spawn_pass ?env (powerup_pass ?env (shark_pass (1/50) ?env ?s1))"
    by (simp add: update_def two_shark_session_fields)
  show ?thesis
    by (simp add: u spawn_pass_keeps powerup_pass_keeps st hs two_shark_session_fields inv)
qed

text \<open>
  C7, as claimed: after the submission nothing else changes in that frame. The rest
  of \<open>update\<close> still runs: here the score at submission is 100.4 (the entry is 100),
  and the frame ends with the bonus of a power-up added to the score, the power-up
  removed, and a second shark spawned.
\<close>

theorem frame_stops_at_collision_counterexample:
  "state lethal_session = PLAYING
   \<and> length (sharks lethal_session) = 1
   \<and> state (shark_pass (1/50) (calm_env 3000) (advance_player (1/50) (calm_env 3000) lethal_session))
       = GAMEOVER
   \<and> score (shark_pass (1/50) (calm_env 3000) (advance_player (1/50) (calm_env 3000) lethal_session))
       = 502 / 5
   \<and> state (update (1/50) (calm_env 3000) lethal_session) = GAMEOVER
   \<and> high_scores (update (1/50) (calm_env 3000) lethal_session)
       = [\<lparr>entry_name = ''Player'', entry_score = 100\<rparr>]
   \<and> score (update (1/50) (calm_env 3000) lethal_session) = 1502 / 5
   \<and> powerups (update (1/50) (calm_env 3000) lethal_session) = []
   \<and> length (sharks (update (1/50) (calm_env 3000) lethal_session)) = 2"
proof -
  let ?env = "calm_env 3000"
  let ?s1 = "advance_player (1/50) ?env lethal_session"
  let ?s2 = "shark_pass (1/50) ?env ?s1"
  note fin = lethal_session_sharks_done
  have sc2: "score ?s2 = 502 / 5"
    by (simp add: shark_pass_keeps advance_player_keeps lethal_session_fields)
  have pw: "powerups ?s2 = [Powerup_init 440 330 Score]"
    by (simp add: shark_pass_keeps advance_player_keeps lethal_session_fields)
  have c2: "collides_with (Powerup_init 440 330 Score) (player ?s2)"
    by (simp only: fin powerup_hits)
  have s3: "powerup_pass ?env ?s2 = (add_bonus ?s2)\<lparr>powerups := []\<rparr>"
    using powerup_pass_one_hit [OF pw c2, of ?env]
    by (simp add: pickup_Score Powerup_init_def)
  have u: "update (1/50) ?env lethal_session = spawn_pass ?env ((add_bonus ?s2)\<lparr>powerups := []\<rparr>)"
    by (simp add: update_def lethal_session_fields s3)
  have len: "length (sharks (update (1/50) ?env lethal_session)) = 2"
    by (simp add: u spawn_pass_keeps add_bonus_def shark_pass_keeps advance_player_keeps
          lethal_session_fields calm_env_fields)
  have pus: "powerups (update (1/50) ?env lethal_session) = []"
    by (simp add: u powerups_spawn_pass add_bonus_def timers_kept lethal_session_fields
          calm_env_fields)
  have st: "state (update (1/50) ?env lethal_session) = GAMEOVER"
    by (simp add: u spawn_pass_keeps add_bonus_def fin)
  have hs: "high_scores (update (1/50) ?env lethal_session)
              = [\<lparr>entry_name = ''Player'', entry_score = 100\<rparr>]"
    by (simp add: u spawn_pass_keeps add_bonus_def fin)
  have sc: "score (update (1/50) ?env lethal_session) = 1502 / 5"
    by (simp add: u spawn_pass_keeps add_bonus_def sc2)
  show ?thesis
    by (simp add: lethal_session_fields fin sc2 st hs sc pus len)
qed

text \<open>
  C7, amended: in the frame of a lethal collision the rest of \<open>update\<close> runs after the
  shark loop: the power-up loop and the two spawn timers. They leave the state at
  game over and do not touch the high-score list, a shark is still spawned when its
  timer is due, and from the next frame on \<open>update\<close> changes nothing.
\<close>

theorem frame_goes_on_after_collision:
  assumes "state s = PLAYING"
    and "state (shark_pass dt env (advance_player dt env s)) = GAMEOVER"
  shows "state (update dt env s) = GAMEOVER
       \<and> high_scores (update dt env s) = high_scores (shark_pass dt env (advance_player dt env s))
       \<and> update dt env s
           = spawn_pass env (powerup_pass env (shark_pass dt env (advance_player dt env s)))
       \<and> length (sharks (update dt env s))
           = length (sharks s) + (if ticks env 0 - last_spawn_time s > spawn_rate s then 1 else 0)
       \<and> update dt' env' (update dt env s) = update dt env s"
proof -
  let ?s1 = "shark_pass dt env (advance_player dt env s)"
  have u: "update dt env s = spawn_pass env (powerup_pass env ?s1)"
    using assms(1) by (simp add: update_def)
  have st: "state (update dt env s) = GAMEOVER"
    using assms(2) by (simp add: u spawn_pass_keeps powerup_pass_keeps)
  have hs: "high_scores (update dt env s) = high_scores ?s1"
    by (simp add: u spawn_pass_keeps powerup_pass_keeps)
  have len: "length (sharks (update dt env s))
           = length (sharks s) + (if ticks env 0 - last_spawn_time s > spawn_rate s then 1 else 0)"
    by (simp add: u spawn_pass_keeps powerup_pass_keeps shark_pass_keeps advance_player_keeps)
  have later: "update dt' env' (update dt env s) = update dt env s"
    using st by (simp add: update_def [of dt' env'])
  from u st hs len later show ?thesis by blast
qed

theorem frame_goes_on_after_collision_witness:
  "state lethal_session = PLAYING
   \<and> state (shark_pass (1/50) (calm_env 3000) (advance_player (1/50) (calm_env 3000) lethal_session))
       = GAMEOVER
   \<and> state (update (1/50) (calm_env 3000) lethal_session) = GAMEOVER
   \<and> length (sharks (update (1/50) (calm_env 3000) lethal_session)) = 2
   \<and> update (1/50) (calm_env 4000) (update (1/50) (calm_env 3000) lethal_session)
       = update (1/50) (calm_env 3000) lethal_session"
proof -
  have a: "state lethal_session = PLAYING"
    by (simp add: lethal_session_fields)
  note b = lethal_session_sharks_done(1)
  note t = frame_goes_on_after_collision [OF a b, of "1/50" "calm_env 4000"]
  from t have st: "state (update (1/50) (calm_env 3000) lethal_session) = GAMEOVER"
    by (rule conjunct1)
  from t have len: "length (sharks (update (1/50) (calm_env 3000) lethal_session))
      = length (sharks lethal_session)
        + (if ticks (calm_env 3000) 0 - last_spawn_time lethal_session > spawn_rate lethal_session
           then 1 else 0)"
    by blast
  from t have later: "update (1/50) (calm_env 4000) (update (1/50) (calm_env 3000) lethal_session)
      = update (1/50) (calm_env 3000) lethal_session"
    by blast
  have two: "length (sharks (update (1/50) (calm_env 3000) lethal_session)) = 2"
    by (simp add: len lethal_session_fields calm_env_fields)
  from a b st two later show ?thesis
    by blast
qed

end
